theory Spec2Isabelle
  imports Main "HOL-Library.Char_ord" "HOL-Library.List_Lexorder" "HOL-Library.Multiset"
begin

section \<open>Strings\<close>

text \<open>
  A Python \<open>str\<close> is a \<^typ>\<open>string\<close> holding the UTF-8 bytes of the text. Comparing two such
  lists byte by byte, a proper prefix first (the order of \<open>List_Lexorder\<close> over \<open>Char_ord\<close>),
  is Python's comparison of \<open>str\<close> by code point. The methods that consult the Unicode
  database (\<open>lower\<close>, \<open>rstrip\<close>, \<open>splitlines\<close>) are modelled on their ASCII behaviour: a
  byte from 0x80 on is neither cased, nor whitespace, nor a line boundary.
\<close>

definition LF :: char where "LF = CHR 0x0A"
definition CR :: char where "CR = CHR 0x0D"

definition lower_char :: "char \<Rightarrow> char" where
  "lower_char c =
     (if CHR ''A'' \<le> c \<and> c \<le> CHR ''Z'' then char_of (of_char c + (32::nat)) else c)"

definition lower :: "string \<Rightarrow> string" where
  "lower s = map lower_char s"

definition endswith :: "string \<Rightarrow> string \<Rightarrow> bool" where
  "endswith s suf \<longleftrightarrow> length suf \<le> length s \<and> drop (length s - length suf) s = suf"

text \<open>\<open>s.rfind(c)\<close>: the highest index of \<open>c\<close> in \<open>s\<close>, or \<open>-1\<close>.\<close>

fun rfind_from :: "int \<Rightarrow> string \<Rightarrow> char \<Rightarrow> int" where
  "rfind_from i [] c = -1"
| "rfind_from i (x # xs) c =
     (let r = rfind_from (i + 1) xs c in if r \<noteq> -1 then r else if x = c then i else -1)"

definition rfind :: "string \<Rightarrow> char \<Rightarrow> int" where
  "rfind s c = rfind_from 0 s c"

text \<open>\<open>sep.join(xs)\<close>.\<close>

fun join :: "string \<Rightarrow> string list \<Rightarrow> string" where
  "join sep [] = []"
| "join sep [x] = x"
| "join sep (x # y # ys) = x @ sep @ join sep (y # ys)"

section \<open>Paths (pathlib, POSIX flavour)\<close>

text \<open>
  A \<open>Path\<close> is its anchor (\<open>absolute\<close>: the root \<open>/\<close> or none) and its parts after the anchor,
  as pathlib parses them: no empty part, no \<open>.\<close>, no \<open>/\<close> inside a part; \<open>..\<close> is kept.
\<close>

record path =
  absolute :: bool
  parts :: "string list"

text \<open>\<open>p / s\<close> for a single relative component \<open>s\<close> (every use in the source).\<close>

definition joinpath :: "path \<Rightarrow> string \<Rightarrow> path" where
  "joinpath p s = p\<lparr>parts := parts p @ [s]\<rparr>"

text \<open>\<open>str(p)\<close>.\<close>

definition str :: "path \<Rightarrow> string" where
  "str p =
     (if absolute p then ''/'' @ join ''/'' (parts p)
      else if parts p = [] then ''.'' else join ''/'' (parts p))"

text \<open>\<open>p.name\<close>: the last part, or the empty string when there is none.\<close>

definition name :: "path \<Rightarrow> string" where
  "name p = (if parts p = [] then [] else last (parts p))"

text \<open>
  \<open>p.suffix\<close>:
  \<^verbatim>\<open>
  name = self.name
  i = name.rfind('.')
  if 0 < i < len(name) - 1: return name[i:]
  else: return ''
  \<close>
\<close>

definition suffix :: "path \<Rightarrow> string" where
  "suffix p =
     (let n = name p; i = rfind n (CHR ''.'')
      in if 0 < i \<and> i < int (length n) - 1 then drop (nat i) n else [])"

datatype error = UnicodeDecodeError | ValueError | OSError

text \<open>
  \<open>p.relative_to(other)\<close>: purely lexical; ValueError unless \<open>other\<close> has the anchor of \<open>p\<close>
  and its parts are the first parts of \<open>p\<close>.
\<close>

definition relative_to :: "path \<Rightarrow> path \<Rightarrow> error + path" where
  "relative_to p other =
     (if absolute p = absolute other \<and> take (length (parts other)) (parts p) = parts other
      then Inr \<lparr>absolute = False, parts = drop (length (parts other)) (parts p)\<rparr>
      else Inl ValueError)"

section \<open>The file system\<close>

text \<open>
  A tree of directories and regular files. A directory lists its entries in the order
  \<open>scandir\<close> yields them. There are no symbolic links and no permission failures.
\<close>

datatype node = File string | Dir "(string \<times> node) list"

record world =
  fs :: node
  cwd :: "string list"
  utcnow :: string
  stdout :: "string list"
  stderr :: "string list"

text \<open>Descent along entry names.\<close>

fun descend :: "node \<Rightarrow> string list \<Rightarrow> node option" where
  "descend n [] = Some n"
| "descend (File b) (c # cs) = None"
| "descend (Dir es) (c # cs) = (case map_of es c of None \<Rightarrow> None | Some n \<Rightarrow> descend n cs)"

text \<open>
  Resolution of a component list as the kernel does it: each component is looked up in the
  directory reached so far, which has to exist and be a directory; \<open>..\<close> goes to the parent
  (the root is its own parent). The result is the canonical list of names.
\<close>

fun canon :: "node \<Rightarrow> string list \<Rightarrow> string list \<Rightarrow> string list option" where
  "canon r acc [] = Some acc"
| "canon r acc (c # cs) =
     (case descend r acc of
        Some (Dir es) \<Rightarrow>
          if c = ''..'' then canon r (butlast acc) cs
          else (case map_of es c of None \<Rightarrow> None | Some n \<Rightarrow> canon r (acc @ [c]) cs)
      | _ \<Rightarrow> None)"

definition full_parts :: "world \<Rightarrow> path \<Rightarrow> string list" where
  "full_parts w p = (if absolute p then [] else cwd w) @ parts p"

definition lookup :: "world \<Rightarrow> path \<Rightarrow> node option" where
  "lookup w p =
     (case canon (fs w) [] (full_parts w p) of
        None \<Rightarrow> None
      | Some cp \<Rightarrow> descend (fs w) cp)"

text \<open>\<open>p.exists()\<close> and \<open>p.is_dir()\<close>.\<close>

definition path_exists :: "world \<Rightarrow> path \<Rightarrow> bool" where
  "path_exists w p \<longleftrightarrow> lookup w p \<noteq> None"

definition is_dir :: "world \<Rightarrow> path \<Rightarrow> bool" where
  "is_dir w p \<longleftrightarrow> (case lookup w p of Some (Dir es) \<Rightarrow> True | _ \<Rightarrow> False)"

subsection \<open>Globbing\<close>

text \<open>\<open>fnmatch\<close> on one name, case-sensitive, for patterns of literals, \<open>*\<close> and \<open>?\<close>.\<close>

fun fnmatch :: "string \<Rightarrow> string \<Rightarrow> bool" where
  "fnmatch [] [] = True"
| "fnmatch [] (c # cs) = False"
| "fnmatch (p # ps) [] = (p = CHR ''*'' \<and> fnmatch ps [])"
| "fnmatch (p # ps) (c # cs) =
     (if p = CHR ''*'' then fnmatch ps (c # cs) \<or> fnmatch (p # ps) cs
      else if p = CHR ''?'' then fnmatch ps cs
      else p = c \<and> fnmatch ps cs)"

text \<open>
  The recursive selector of \<open>**/pat\<close>: the directories below the start are visited in
  pre-order, the start first, and in each one the entries whose name matches \<open>pat\<close> are
  yielded in listing order, files and directories alike. The results are lists of names
  relative to the start.
\<close>

fun select_rec :: "string \<Rightarrow> node \<Rightarrow> string list list"
  and select_sub :: "string \<Rightarrow> (string \<times> node) list \<Rightarrow> string list list" where
  "select_rec pat (File b) = []"
| "select_rec pat (Dir es) =
     map (\<lambda>e. [fst e]) (filter (\<lambda>e. fnmatch pat (fst e)) es) @ select_sub pat es"
| "select_sub pat [] = []"
| "select_sub pat (e # es) =
     map (\<lambda>rel. fst e # rel) (select_rec pat (snd e)) @ select_sub pat es"

text \<open>The path of an entry reached from \<open>d\<close> by the names \<open>rel\<close>.\<close>

definition child :: "path \<Rightarrow> string list \<Rightarrow> path" where
  "child d rel = d\<lparr>parts := parts d @ rel\<rparr>"

text \<open>\<open>d.glob(pattern)\<close> for the patterns \<open>**/pat\<close> with a single name pattern \<open>pat\<close>.\<close>

definition glob :: "world \<Rightarrow> path \<Rightarrow> string \<Rightarrow> path list" where
  "glob w d pattern =
     (if take 3 pattern = ''**/'' then
        (case lookup w d of
           Some n \<Rightarrow> map (child d) (select_rec (drop 3 pattern) n)
         | None \<Rightarrow> [])
      else [])"

section \<open>find_files\<close>

text \<open>Line 30: \<open>worker_dir = root / "worker" / "src"\<close>.\<close>

definition worker_dir :: "path \<Rightarrow> path" where
  "worker_dir root = joinpath (joinpath root ''worker'') ''src''"

text \<open>Lines 31 to 36: the files appended by the scan of \<open>worker_dir\<close>.\<close>

definition scanned :: "world \<Rightarrow> path \<Rightarrow> bool \<Rightarrow> path list" where
  "scanned w root skip_dot_types =
     (if path_exists w (worker_dir root) \<and> is_dir w (worker_dir root)
      then filter (\<lambda>p. \<not> (skip_dot_types \<and> endswith (name p) ''.d.ts''))
             (concat (map (glob w (worker_dir root)) [''**/*.ts'', ''**/*.tsx'']))
      else [])"

text \<open>Lines 39 to 42: the top-level files appended after the scan.\<close>

definition extras :: "world \<Rightarrow> path \<Rightarrow> path list" where
  "extras w root =
     filter (path_exists w) (map (joinpath root) [''wrangler.toml'', ''vitest.config.ts''])"

definition sort_key_of :: "path \<Rightarrow> string" where
  "sort_key_of p = lower (str p)"

definition find_files :: "world \<Rightarrow> path \<Rightarrow> bool \<Rightarrow> path list" where
  "find_files w root skip_dot_types =
     sort_key sort_key_of (scanned w root skip_dot_types @ extras w root)"

section \<open>file_language_for\<close>

definition file_language_for :: "path \<Rightarrow> string" where
  "file_language_for p =
     (let suffix = lower (suffix p)
      in if suffix = ''.toml'' then ''toml''
         else if suffix \<in> {''.ts'', ''.tsx''} then ''ts''
         else ''text'')"

section \<open>Reading and writing text\<close>

text \<open>The strict UTF-8 decoder accepts exactly the well-formed byte sequences.\<close>

definition cont :: "nat \<Rightarrow> bool" where
  "cont b \<longleftrightarrow> 0x80 \<le> b \<and> b \<le> 0xBF"

fun utf8_ok :: "nat list \<Rightarrow> bool" where
  "utf8_ok [] = True"
| "utf8_ok (b # bs) =
     (if b < 0x80 then utf8_ok bs
      else if 0xC2 \<le> b \<and> b \<le> 0xDF then
        (case bs of c1 # r \<Rightarrow> cont c1 \<and> utf8_ok r | _ \<Rightarrow> False)
      else if 0xE0 \<le> b \<and> b \<le> 0xEF then
        (case bs of
           c1 # c2 # r \<Rightarrow>
             (if b = 0xE0 then 0xA0 \<le> c1 \<and> c1 \<le> 0xBF
              else if b = 0xED then 0x80 \<le> c1 \<and> c1 \<le> 0x9F
              else cont c1) \<and> cont c2 \<and> utf8_ok r
         | _ \<Rightarrow> False)
      else if 0xF0 \<le> b \<and> b \<le> 0xF4 then
        (case bs of
           c1 # c2 # c3 # r \<Rightarrow>
             (if b = 0xF0 then 0x90 \<le> c1 \<and> c1 \<le> 0xBF
              else if b = 0xF4 then 0x80 \<le> c1 \<and> c1 \<le> 0x8F
              else cont c1) \<and> cont c2 \<and> cont c3 \<and> utf8_ok r
         | _ \<Rightarrow> False)
      else False)"

text \<open>Universal newlines on reading: \<open>\r\n\<close> and a lone \<open>\r\<close> become \<open>\n\<close>.\<close>

fun universal_newlines :: "string \<Rightarrow> string" where
  "universal_newlines [] = []"
| "universal_newlines [c] = [if c = CR then LF else c]"
| "universal_newlines (c # d # cs) =
     (if c = CR \<and> d = LF then LF # universal_newlines cs
      else if c = CR then LF # universal_newlines (d # cs)
      else c # universal_newlines (d # cs))"

text \<open>
  \<open>p.read_text(encoding="utf-8")\<close>. A missing path and a directory raise subclasses of
  OSError, which the source does not catch.
\<close>

definition read_text :: "world \<Rightarrow> path \<Rightarrow> error + string" where
  "read_text w p =
     (case lookup w p of
        None \<Rightarrow> Inl OSError
      | Some (Dir es) \<Rightarrow> Inl OSError
      | Some (File b) \<Rightarrow>
          if utf8_ok (map of_char b) then Inr (universal_newlines b) else Inl UnicodeDecodeError)"

text \<open>\<open>c.isspace()\<close> on ASCII.\<close>

definition isspace :: "char \<Rightarrow> bool" where
  "isspace c \<longleftrightarrow>
     c = CHR '' '' \<or> (CHR 0x09 \<le> c \<and> c \<le> CHR 0x0D) \<or> (CHR 0x1C \<le> c \<and> c \<le> CHR 0x1F)"

text \<open>\<open>s.rstrip()\<close>.\<close>

definition rstrip :: "string \<Rightarrow> string" where
  "rstrip s = rev (dropWhile isspace (rev s))"

text \<open>\<open>s.splitlines()\<close>; \<open>\r\n\<close> is one boundary.\<close>

definition is_linebreak :: "char \<Rightarrow> bool" where
  "is_linebreak c \<longleftrightarrow> (CHR 0x0A \<le> c \<and> c \<le> CHR 0x0D) \<or> (CHR 0x1C \<le> c \<and> c \<le> CHR 0x1E)"

fun splitlines_from :: "string \<Rightarrow> string \<Rightarrow> string list" where
  "splitlines_from cur [] = (if cur = [] then [] else [cur])"
| "splitlines_from cur [c] = (if is_linebreak c then [cur] else [cur @ [c]])"
| "splitlines_from cur (c # d # cs) =
     (if c = CR \<and> d = LF then cur # splitlines_from [] cs
      else if is_linebreak c then cur # splitlines_from [] (d # cs)
      else splitlines_from (cur @ [c]) (d # cs))"

definition splitlines :: "string \<Rightarrow> string list" where
  "splitlines s = splitlines_from [] s"

text \<open>\<open>str(n)\<close> for a length.\<close>

fun str_nat :: "nat \<Rightarrow> string" where
  "str_nat n =
     (if n < 10 then [char_of (48 + n)] else str_nat (n div 10) @ [char_of (48 + n mod 10)])"

text \<open>Storing a file's content at a canonical list of names whose parent exists.\<close>

fun put :: "node \<Rightarrow> string list \<Rightarrow> string \<Rightarrow> node"
  and put_entry :: "(string \<times> node) list \<Rightarrow> string \<Rightarrow> string list \<Rightarrow> string \<Rightarrow> (string \<times> node) list" where
  "put (File b) cs data = File b"
| "put (Dir es) [] data = Dir es"
| "put (Dir es) (c # cs) data = Dir (put_entry es c cs data)"
| "put_entry [] c cs data = (if cs = [] then [(c, File data)] else [])"
| "put_entry (e # es) c cs data =
     (if fst e = c then (c, if cs = [] then File data else put (snd e) cs data) # es
      else e # put_entry es c cs data)"

text \<open>
  \<open>out_path.open("w")\<close>: the file is created or truncated at once; the result is the
  canonical place of the file. OSError when the parent is missing or not a directory, or
  when the path names a directory.
\<close>

definition open_w :: "world \<Rightarrow> path \<Rightarrow> error + (world \<times> string list)" where
  "open_w w p =
     (let full = full_parts w p
      in if parts p = [] \<or> last full = ''..'' then Inl OSError
         else (case canon (fs w) [] (butlast full) of
                 None \<Rightarrow> Inl OSError
               | Some parent \<Rightarrow>
                   (case descend (fs w) parent of
                      Some (Dir es) \<Rightarrow>
                        (case map_of es (last full) of
                           Some (Dir sub) \<Rightarrow> Inl OSError
                         | _ \<Rightarrow> Inr (w\<lparr>fs := put (fs w) (parent @ [last full]) []\<rparr>,
                                      parent @ [last full]))
                    | _ \<Rightarrow> Inl OSError)))"

section \<open>write_markdown\<close>

text \<open>Line 69: \<open>rel = path.relative_to(Path.cwd()) if path.exists() else path\<close>.\<close>

definition display_path :: "world \<Rightarrow> path \<Rightarrow> error + path" where
  "display_path w p =
     (if path_exists w p then relative_to p \<lparr>absolute = True, parts = cwd w\<rparr> else Inr p)"

text \<open>The argument of \<open>out.write\<close> at line 76.\<close>

definition fence_body :: "string \<Rightarrow> string" where
  "fence_body text = rstrip text @ [LF]"

text \<open>Lines 70 to 77: the six writes made for one file.\<close>

definition section_text :: "path \<Rightarrow> string \<Rightarrow> path \<Rightarrow> string" where
  "section_text rel text p =
     ''---'' @ [LF, LF]
     @ ''## `'' @ str rel @ ''`'' @ [LF, LF]
     @ ''_Size: '' @ str_nat (length (splitlines text)) @ '' lines_  '' @ [LF, LF]
     @ ''```'' @ file_language_for p @ [LF]
     @ fence_body text
     @ ''```'' @ [LF, LF]"

definition warning :: "path \<Rightarrow> string" where
  "warning p = ''Warning: skipping non-text file '' @ str p"

text \<open>
  The loop of lines 62 to 77 over the files still to do, with the text written to \<open>out\<close> so
  far and the lines printed to the error stream so far. It ends with the two of them and
  the exception that ended it, if one did.
\<close>

fun write_sections ::
  "world \<Rightarrow> path list \<Rightarrow> string \<Rightarrow> string list \<Rightarrow> string \<times> string list \<times> error option" where
  "write_sections w [] out err = (out, err, None)"
| "write_sections w (p # ps) out err =
     (case read_text w p of
        Inl UnicodeDecodeError \<Rightarrow> write_sections w ps out (err @ [warning p])
      | Inl e \<Rightarrow> (out, err, Some e)
      | Inr text \<Rightarrow>
          (case display_path w p of
             Inl e \<Rightarrow> (out, err, Some e)
           | Inr rel \<Rightarrow> write_sections w ps (out @ section_text rel text p) err))"

text \<open>
  The text written to \<open>out\<close> is buffered and reaches the file when the \<open>with\<close> block is
  left, also by an exception. The document is taken to fit the buffer: until the block is
  left the file is there and empty, which is what a file of the list that is the output
  file itself is read as.
\<close>

definition write_markdown :: "world \<Rightarrow> path list \<Rightarrow> path \<Rightarrow> world \<times> (error + unit)" where
  "write_markdown w files out_path =
     (let header = ''# Combined source files'' @ [LF, LF] @ ''Generated: '' @ utcnow w
                   @ ''Z'' @ [LF, LF]
      in case open_w w out_path of
           Inl e \<Rightarrow> (w, Inl e)
         | Inr (w1, target) \<Rightarrow>
             (case write_sections w1 files header (stderr w1) of
                (out, err, exn) \<Rightarrow>
                  (let w2 = w1\<lparr>fs := put (fs w1) target out, stderr := err\<rparr>
                   in case exn of
                        Some e \<Rightarrow> (w2, Inl e)
                      | None \<Rightarrow>
                          (w2\<lparr>stdout := stdout w2 @
                                 [''Wrote '' @ str out_path @ '' with ''
                                  @ str_nat (length files) @ '' files.'']\<rparr>,
                           Inr ()))))"

section \<open>main\<close>

text \<open>
  The parsed command line (\<open>output\<close> is a keyword of Isabelle, hence \<open>output_path\<close>).
  The parser sets \<open>skip_dot_types\<close> to true whether or not the flag is given.
\<close>

record args =
  root :: path
  output_path :: path
  skip_dot_types :: bool

definition main :: "world \<Rightarrow> args \<Rightarrow> world \<times> (error + int)" where
  "main w a =
     (let files = find_files w (root a) (skip_dot_types a)
      in if files = [] then (w\<lparr>stderr := stderr w @ [''No files found to include.'']\<rparr>, Inr 2)
         else (case write_markdown w files (output_path a) of
                 (w', Inl e) \<Rightarrow> (w', Inl e)
               | (w', Inr u) \<Rightarrow> (w', Inr 0)))"

section \<open>The classifier rule in the words of the specification\<close>

text \<open>
  Equality of extensions up to the case of ASCII letters, stated without \<open>lower\<close>: two
  characters agree when they are equal or when one is a capital letter and the other the
  small letter 32 places above it.
\<close>

definition is_upper :: "char \<Rightarrow> bool" where
  "is_upper c \<longleftrightarrow> CHR ''A'' \<le> c \<and> c \<le> CHR ''Z''"

definition same_letter :: "char \<Rightarrow> char \<Rightarrow> bool" where
  "same_letter a b \<longleftrightarrow>
     a = b \<or> (is_upper a \<and> of_char b = of_char a + (32::nat))
           \<or> (is_upper b \<and> of_char a = of_char b + (32::nat))"

definition equal_ignoring_case :: "string \<Rightarrow> string \<Rightarrow> bool" where
  "equal_ignoring_case s t \<longleftrightarrow> list_all2 same_letter s t"

definition spec_language_tag :: "string \<Rightarrow> string" where
  "spec_language_tag ext =
     (if equal_ignoring_case ext ''.toml'' then ''toml''
      else if equal_ignoring_case ext ''.ts'' \<or> equal_ignoring_case ext ''.tsx'' then ''ts''
      else ''text'')"

section \<open>Auxiliary notions for the statements\<close>



section \<open>Example worlds\<close>

text \<open>
  A project at \<open>/proj\<close>: three sources and a declaration file below \<open>worker/src\<close>, one of
  the sources not valid UTF-8, and \<open>wrangler.toml\<close> at the top.
\<close>

definition ex_world :: world where
  "ex_world =
     \<lparr>fs = Dir [(''proj'',
                 Dir [(''worker'',
                       Dir [(''src'',
                             Dir [(''b.ts'', File ''x = 1''),
                                  (''A.tsx'', File ''y''),
                                  (''t.d.ts'', File ''z''),
                                  (''sub'', Dir [(''c.ts'', File [CHR 0xFF])])])]),
                      (''wrangler.toml'', File ''k = 1 \<newline>'')]),
                (''home'', Dir [])],
      cwd = [''proj''], utcnow = ''2024-01-01T00:00:00'', stdout = [], stderr = []\<rparr>"

definition ex_root :: path where
  "ex_root = \<lparr>absolute = True, parts = [''proj'']\<rparr>"

definition ex_out :: path where
  "ex_out = \<lparr>absolute = True, parts = [''proj'', ''out.md'']\<rparr>"

definition ex_args :: args where
  "ex_args = \<lparr>root = ex_root, output_path = ex_out, skip_dot_types = True\<rparr>"

text \<open>A world with nothing to find.\<close>

definition ex_bare :: world where
  "ex_bare =
     \<lparr>fs = Dir [(''home'', Dir [])],
      cwd = [''home''], utcnow = ''2024-01-01T00:00:00'', stdout = [], stderr = []\<rparr>"

definition ex_bare_args :: args where
  "ex_bare_args =
     \<lparr>root = \<lparr>absolute = False, parts = []\<rparr>,
      output_path = \<lparr>absolute = False, parts = [''worker_sources.md'']\<rparr>,
      skip_dot_types = True\<rparr>"

text \<open>The same project seen from another working directory, and given by a relative root.\<close>

definition ex_elsewhere :: world where
  "ex_elsewhere = ex_world\<lparr>cwd := [''home'']\<rparr>"

definition ex_relative_args :: args where
  "ex_relative_args =
     \<lparr>root = \<lparr>absolute = False, parts = []\<rparr>, output_path = ex_out, skip_dot_types = True\<rparr>"


text \<open>Paths of the first project.\<close>

definition ex_src :: path where
  "ex_src = \<lparr>absolute = True, parts = [''proj'', ''worker'', ''src'']\<rparr>"


section \<open>Basic facts\<close>

lemma lookup_frame: "fs w' = fs w \<Longrightarrow> cwd w' = cwd w \<Longrightarrow> lookup w' p = lookup w p"
  by (simp add: lookup_def full_parts_def split: option.splits)


lemma rfind_from_absent: "c \<notin> set s \<Longrightarrow> rfind_from i s c = -1"
  by (induction s arbitrary: i) (auto simp: Let_def)

lemma rfind_from_last:
  "0 \<le> i \<Longrightarrow> c \<notin> set ys \<Longrightarrow> rfind_from i (xs @ c # ys) c = i + int (length xs)"
  by (induction xs arbitrary: i) (auto simp: Let_def rfind_from_absent)

lemma endswithD: "endswith s suf \<Longrightarrow> \<exists>pre. s = pre @ suf"
  unfolding endswith_def by (metis append_take_drop_id)

lemma endswithI: "endswith (pre @ suf) suf"
  unfolding endswith_def by simp

lemma suffix_of_ts:
  assumes "name p = pre @ ''.ts''" "pre \<noteq> []"
  shows "suffix p = ''.ts''"
proof -
  have "rfind (pre @ CHR ''.'' # ''ts'') (CHR ''.'') = int (length pre)"
    unfolding rfind_def by (subst rfind_from_last) auto
  with assms show ?thesis by (simp add: suffix_def Let_def)
qed

lemma lower_ts: "lower ''.ts'' = ''.ts''"
  by code_simp

lemma lower_char_eq_iff:
  assumes "\<not> is_upper b"
  shows "lower_char a = b \<longleftrightarrow> same_letter a b"
proof (cases "is_upper a")
  case True
  then have n: "of_char a + (32::nat) < 2 ^ 8"
    by (simp add: is_upper_def less_eq_char_def)
  have "char_of (of_char a + (32::nat)) = b \<longleftrightarrow> of_char b = of_char a + (32::nat)"
    unfolding char_of_eq_iff take_bit_nat_eq_self[OF n] by auto
  moreover have "a \<noteq> b" using True assms by auto
  ultimately show ?thesis using True assms
    by (auto simp add: lower_char_def same_letter_def is_upper_def)
next
  case False
  then show ?thesis using assms
    by (auto simp add: lower_char_def same_letter_def is_upper_def)
qed

lemma lower_eq_iff:
  "\<forall>c\<in>set t. \<not> is_upper c \<Longrightarrow> lower s = t \<longleftrightarrow> equal_ignoring_case s t"
  unfolding lower_def equal_ignoring_case_def
proof (induction s arbitrary: t)
  case Nil
  then show ?case by auto
next
  case (Cons a s)
  then show ?case by (cases t) (auto simp: lower_char_eq_iff)
qed

lemma no_upper_toml: "\<forall>c\<in>set ''.toml''. \<not> is_upper c"
  by code_simp

lemma no_upper_ts: "\<forall>c\<in>set ''.ts''. \<not> is_upper c"
  by code_simp

lemma no_upper_tsx: "\<forall>c\<in>set ''.tsx''. \<not> is_upper c"
  by code_simp

lemma open_w_stdout: "open_w w p = Inr (w1, t) \<Longrightarrow> stdout w1 = stdout w"
  by (auto simp: open_w_def Let_def split: if_splits option.splits node.splits)

section \<open>Facts about paths and the scan\<close>









lemma fnmatch_literal:
  "\<forall>c\<in>set lit. c \<noteq> CHR ''*'' \<and> c \<noteq> CHR ''?'' \<Longrightarrow> fnmatch lit lit"
  by (induction lit) auto

lemma fnmatch_star: "fnmatch ps n \<Longrightarrow> fnmatch (CHR ''*'' # ps) (pre @ n)"
proof (induction pre)
  case Nil
  then show ?case by (cases n) auto
next
  case (Cons c pre)
  then show ?case by simp
qed

lemma fnmatch_ts:
  assumes "endswith n ''.ts''"
  shows "fnmatch ''*.ts'' n"
proof -
  from assms obtain pre where n: "n = pre @ ''.ts''"
    by (auto dest: endswithD)
  have "fnmatch ''.ts'' ''.ts''"
    by (rule fnmatch_literal) simp
  then have "fnmatch (CHR ''*'' # ''.ts'') (pre @ ''.ts'')"
    by (rule fnmatch_star)
  with n show ?thesis by simp
qed

lemma select_sub_member:
  "(c, n) \<in> set es \<Longrightarrow> rel \<in> set (select_rec pat n) \<Longrightarrow> c # rel \<in> set (select_sub pat es)"
  by (induction es) auto

lemma select_rec_complete:
  "descend n rel = Some m \<Longrightarrow> rel \<noteq> [] \<Longrightarrow> fnmatch pat (last rel)
   \<Longrightarrow> rel \<in> set (select_rec pat n)"
proof (induction n rel rule: descend.induct)
  case (1 n)
  then show ?case by simp
next
  case (2 b c cs)
  then show ?case by simp
next
  case (3 es c cs)
  from "3.prems"(1) obtain n' where n': "map_of es c = Some n'" and d: "descend n' cs = Some m"
    by (auto split: option.splits)
  from n' have mem: "(c, n') \<in> set es"
    by (rule map_of_SomeD)
  show ?case
  proof (cases "cs = []")
    case True
    with "3.prems" mem show ?thesis by force
  next
    case False
    with "3.prems" have "fnmatch pat (last cs)"
      by simp
    with "3.IH"[OF n' d False] have "cs \<in> set (select_rec pat n')"
      by simp
    with mem have "c # cs \<in> set (select_sub pat es)"
      by (rule select_sub_member)
    then show ?thesis by simp
  qed
qed

lemma glob_complete:
  assumes "lookup w d = Some n" "descend n rel = Some m" "rel \<noteq> []" "fnmatch pat (last rel)"
  shows "child d rel \<in> set (glob w d (''**/'' @ pat))"
proof -
  from assms(2-4) have "rel \<in> set (select_rec pat n)"
    by (rule select_rec_complete)
  with assms(1) show ?thesis by (simp add: glob_def)
qed

lemma name_joinpath: "name (joinpath r x) = x"
  by (simp add: name_def joinpath_def)

lemma extras_not_declaration:
  assumes "p \<in> set (extras w r)"
  shows "\<not> endswith (name p) ''.d.ts''"
proof -
  have a: "\<not> endswith ''wrangler.toml'' ''.d.ts''"
    by code_simp
  have b: "\<not> endswith ''vitest.config.ts'' ''.d.ts''"
    by code_simp
  from assms have "p = joinpath r ''wrangler.toml'' \<or> p = joinpath r ''vitest.config.ts''"
    by (auto simp: extras_def split: if_splits)
  with a b show ?thesis by (auto simp: name_joinpath)
qed

section \<open>Facts about the writer\<close>








text \<open>
  In general: for a path that exists and is relative, or is not below the working
  directory, line 69 of the source raises ValueError; the raw path is the result only for a path that
  does not exist.
\<close>

lemma display_path_cases:
  "display_path w p =
     (if \<not> path_exists w p then Inr p
      else if absolute p \<and> take (length (cwd w)) (parts p) = cwd w
      then Inr \<lparr>absolute = False, parts = drop (length (cwd w)) (parts p)\<rparr>
      else Inl ValueError)"
  by (simp add: display_path_def relative_to_def)

lemma read_then_exists: "read_text w p = Inr t \<Longrightarrow> path_exists w p"
  by (auto simp: read_text_def path_exists_def split: option.splits)

section \<open>The order of the inclusion set\<close>



text \<open>
  Two supplements. When no two collected paths have the same lowercase form, the list is
  strictly ascending, and it does not depend on the order in which the directories list
  their entries: two worlds where the same paths are collected give the same list.
\<close>

lemma find_files_strictly_sorted:
  assumes "distinct (map sort_key_of (scanned w r s @ extras w r))"
  shows "sorted_wrt (<) (map sort_key_of (find_files w r s))"
proof -
  have "mset (map sort_key_of (find_files w r s))
        = mset (map sort_key_of (scanned w r s @ extras w r))"
    by (simp add: find_files_def)
  with assms have "distinct (map sort_key_of (find_files w r s))"
    by (metis mset_eq_imp_distinct_iff)
  moreover have "sorted (map sort_key_of (find_files w r s))"
    by (simp add: find_files_def)
  ultimately show ?thesis
    by (simp add: strict_sorted_iff)
qed

lemma find_files_listing_order:
  assumes "mset (scanned w' r s @ extras w' r) = mset (scanned w r s @ extras w r)"
    and "distinct (map sort_key_of (scanned w r s @ extras w r))"
  shows "find_files w' r s = find_files w r s"
  unfolding find_files_def
proof (rule sort_key_inj_key_eq)
  show "mset (scanned w' r s @ extras w' r)
        = mset (sort_key sort_key_of (scanned w r s @ extras w r))"
    using assms(1) by simp
  have "inj_on sort_key_of (set (scanned w r s @ extras w r))"
    using assms(2) unfolding distinct_map by (rule conjunct2)
  moreover have "set (scanned w' r s @ extras w' r) = set (scanned w r s @ extras w r)"
    using assms(1) by (metis mset_eq_setD)
  ultimately show "inj_on sort_key_of (set (scanned w' r s @ extras w' r))"
    by simp
  show "sorted (map sort_key_of (sort_key sort_key_of (scanned w r s @ extras w r)))"
    by simp
qed

section \<open>Nothing found\<close>

text \<open>
  C3. When \<open>find_files\<close> returns the empty list, \<open>main\<close> returns 2 after one line on the
  error stream; \<open>write_markdown\<close> is not called, the file system is as before, and so is
  what the output path names.
\<close>

theorem main_no_files:
  assumes "find_files w (root a) (skip_dot_types a) = []"
  shows "main w a = (w\<lparr>stderr := stderr w @ [''No files found to include.'']\<rparr>, Inr 2)
         \<and> fs (fst (main w a)) = fs w
         \<and> lookup (fst (main w a)) (output_path a) = lookup w (output_path a)"
proof -
  have m: "main w a = (w\<lparr>stderr := stderr w @ [''No files found to include.'']\<rparr>, Inr 2)"
    using assms by (simp add: main_def)
  have "lookup (w\<lparr>stderr := stderr w @ [''No files found to include.'']\<rparr>) (output_path a)
        = lookup w (output_path a)"
    by (rule lookup_frame) simp_all
  with m show ?thesis by simp
qed

theorem main_no_files_witness:
  "find_files ex_bare (root ex_bare_args) (skip_dot_types ex_bare_args) = []
   \<and> snd (main ex_bare ex_bare_args) = Inr 2
   \<and> lookup (fst (main ex_bare ex_bare_args)) (output_path ex_bare_args) = None"
proof -
  have h: "find_files ex_bare (root ex_bare_args) (skip_dot_types ex_bare_args) = []"
    by code_simp
  have n: "lookup ex_bare (output_path ex_bare_args) = None"
    by code_simp
  note t = main_no_files[OF h]
  from t[THEN conjunct1] have a: "snd (main ex_bare ex_bare_args) = Inr 2"
    by simp
  from t[THEN conjunct2, THEN conjunct2] n
  have c: "lookup (fst (main ex_bare ex_bare_args)) (output_path ex_bare_args) = None"
    by (simp only:)
  from h a c show ?thesis by (intro conjI)
qed

section \<open>The completion message\<close>

text \<open>
  C6. When \<open>write_markdown\<close> returns normally, it has printed one line to standard output,
  which names the output path and the length of the list of files it was given, whatever
  the number of files skipped.
\<close>

theorem write_markdown_reports_given_count:
  assumes "snd (write_markdown w files out_path) = Inr ()"
  shows "stdout (fst (write_markdown w files out_path))
         = stdout w @ [''Wrote '' @ str out_path @ '' with '' @ str_nat (length files)
                       @ '' files.'']"
proof (cases "open_w w out_path")
  case (Inl e)
  with assms show ?thesis by (simp add: write_markdown_def)
next
  case (Inr r)
  obtain w1 target where r: "r = (w1, target)"
    by (cases r)
  obtain out err exn where ws:
    "write_sections w1 files
       (''# Combined source files'' @ [LF, LF] @ ''Generated: '' @ utcnow w @ ''Z'' @ [LF, LF])
       (stderr w1) = (out, err, exn)"
    by (cases "write_sections w1 files
       (''# Combined source files'' @ [LF, LF] @ ''Generated: '' @ utcnow w @ ''Z'' @ [LF, LF])
       (stderr w1)") auto
  from Inr r have s: "stdout w1 = stdout w"
    by (simp add: open_w_stdout)
  show ?thesis
  proof (cases exn)
    case None
    with Inr r ws s show ?thesis by (simp add: write_markdown_def)
  next
    case (Some e)
    with Inr r ws assms show ?thesis by (simp add: write_markdown_def)
  qed
qed

theorem write_markdown_reports_given_count_witness:
  "snd (write_markdown ex_world (find_files ex_world ex_root True) ex_out) = Inr ()
   \<and> stdout (fst (write_markdown ex_world (find_files ex_world ex_root True) ex_out))
     = [''Wrote /proj/out.md with 4 files.'']
   \<and> stderr (fst (write_markdown ex_world (find_files ex_world ex_root True) ex_out))
     = [''Warning: skipping non-text file /proj/worker/src/sub/c.ts'']"
proof -
  have h: "snd (write_markdown ex_world (find_files ex_world ex_root True) ex_out) = Inr ()"
    by code_simp
  have e: "stdout ex_world @ [''Wrote '' @ str ex_out @ '' with ''
             @ str_nat (length (find_files ex_world ex_root True)) @ '' files.'']
           = [''Wrote /proj/out.md with 4 files.'']"
    by code_simp
  have s: "stderr (fst (write_markdown ex_world (find_files ex_world ex_root True) ex_out))
           = [''Warning: skipping non-text file /proj/worker/src/sub/c.ts'']"
    by code_simp
  show ?thesis using write_markdown_reports_given_count[OF h] h e s by simp
qed

section \<open>The language classifier\<close>

text \<open>
  C8. \<open>file_language_for\<close> is defined on every path and raises nothing. Its result is the
  tag the rule of the specification gives for the extension of the path compared without
  regard to case: \<open>toml\<close> for \<open>.toml\<close>, the one tag \<open>ts\<close> for \<open>.ts\<close> and \<open>.tsx\<close>, and
  \<open>text\<close> for everything else, the empty extension included.
\<close>

theorem file_language_for_total:
  "file_language_for p = spec_language_tag (suffix p)
   \<and> file_language_for p \<in> {''toml'', ''ts'', ''text''}"
  by (simp add: file_language_for_def spec_language_tag_def Let_def
      lower_eq_iff[OF no_upper_toml] lower_eq_iff[OF no_upper_ts] lower_eq_iff[OF no_upper_tsx])

theorem file_language_for_total_witness:
  "file_language_for \<lparr>absolute = False, parts = [''src'', ''View.TSX'']\<rparr> = ''ts''
   \<and> file_language_for \<lparr>absolute = False, parts = [''Wrangler.Toml'']\<rparr> = ''toml''
   \<and> file_language_for \<lparr>absolute = False, parts = [''Makefile'']\<rparr> = ''text''"
proof -
  have a: "spec_language_tag (suffix \<lparr>absolute = False, parts = [''src'', ''View.TSX'']\<rparr>) = ''ts''"
    by code_simp
  have b: "spec_language_tag (suffix \<lparr>absolute = False, parts = [''Wrangler.Toml'']\<rparr>) = ''toml''"
    by code_simp
  have c: "spec_language_tag (suffix \<lparr>absolute = False, parts = [''Makefile'']\<rparr>) = ''text''"
    by code_simp
  show ?thesis
    using file_language_for_total[of "\<lparr>absolute = False, parts = [''src'', ''View.TSX'']\<rparr>"]
      file_language_for_total[of "\<lparr>absolute = False, parts = [''Wrangler.Toml'']\<rparr>"]
      file_language_for_total[of "\<lparr>absolute = False, parts = [''Makefile'']\<rparr>"] a b c
    by simp
qed

text \<open>
  C10. A path whose name ends with \<open>.d.ts\<close> has the extension \<open>.ts\<close>, since the extension
  starts at the last dot of the name; it is classified \<open>ts\<close>, as every path with the
  extension \<open>.ts\<close> is, and not \<open>text\<close>.
\<close>

theorem declaration_file_language:
  assumes "endswith (name p) ''.d.ts''"
  shows "suffix p = ''.ts'' \<and> file_language_for p = ''ts''
         \<and> (\<forall>q. suffix q = ''.ts'' \<longrightarrow> file_language_for q = file_language_for p)"
proof -
  from assms obtain pre where "name p = pre @ ''.d.ts''"
    by (auto dest: endswithD)
  then have "name p = (pre @ ''.d'') @ ''.ts''"
    by simp
  then have "suffix p = ''.ts''"
    by (rule suffix_of_ts) simp
  then show ?thesis
    by (simp add: file_language_for_def Let_def lower_ts)
qed

theorem declaration_file_language_witness:
  "endswith (name \<lparr>absolute = True, parts = [''proj'', ''worker'', ''src'', ''t.d.ts'']\<rparr>) ''.d.ts''
   \<and> file_language_for \<lparr>absolute = True, parts = [''proj'', ''worker'', ''src'', ''t.d.ts'']\<rparr>
     = ''ts''"
proof -
  have h: "endswith (name \<lparr>absolute = True, parts = [''proj'', ''worker'', ''src'', ''t.d.ts'']\<rparr>)
             ''.d.ts''"
    by code_simp
  show ?thesis using declaration_file_language[OF h] h by simp
qed

section \<open>A root without worker/src\<close>



section \<open>Declaration files\<close>

text \<open>
  C5. Take an entry reached from \<open>worker/src\<close> by a chain of names \<open>rel\<close> (a file at any
  depth of the scanned subtree) whose name ends with \<open>.d.ts\<close>. With the flag set its path
  is not in the result of \<open>find_files\<close>; with the flag cleared it is.
\<close>

theorem declaration_files_and_the_flag:
  assumes "lookup w (worker_dir r) = Some d"
    and "descend d rel = Some m"
    and "endswith (name (child (worker_dir r) rel)) ''.d.ts''"
  shows "child (worker_dir r) rel \<notin> set (find_files w r True)
         \<and> child (worker_dir r) rel \<in> set (find_files w r False)"
proof -
  let ?p = "child (worker_dir r) rel"
  have ns: "\<not> endswith ''src'' ''.d.ts''"
    by code_simp
  have rel: "rel \<noteq> []"
  proof
    assume "rel = []"
    then have "name ?p = ''src''"
      by (simp add: name_def joinpath_def child_def worker_dir_def)
    with assms(3) ns show False by simp
  qed
  then have np: "name ?p = last rel"
    by (simp add: name_def child_def)
  from rel assms(2) obtain es where d: "d = Dir es"
    by (cases d; cases rel) auto
  have ex: "path_exists w (worker_dir r)" "is_dir w (worker_dir r)"
    using assms(1) d by (simp_all add: path_exists_def is_dir_def)
  have out: "?p \<notin> set (find_files w r True)"
    using assms(3) extras_not_declaration[of ?p w r]
    by (auto simp: find_files_def scanned_def split: if_splits)
  from assms(3) np obtain pre where "last rel = (pre @ ''.d'') @ ''.ts''"
    by (auto dest!: endswithD)
  then have "endswith (last rel) ''.ts''"
    by (simp only: endswithI)
  then have "fnmatch ''*.ts'' (last rel)"
    by (rule fnmatch_ts)
  with assms(1,2) rel have "?p \<in> set (glob w (worker_dir r) (''**/'' @ ''*.ts''))"
    by (intro glob_complete)
  then have "?p \<in> set (scanned w r False)"
    using ex by (simp add: scanned_def)
  then have "?p \<in> set (find_files w r False)"
    by (simp add: find_files_def)
  with out show ?thesis by simp
qed

theorem declaration_files_and_the_flag_witness:
  "lookup ex_world (worker_dir ex_root) = Some (Dir [(''b.ts'', File ''x = 1''),
       (''A.tsx'', File ''y''), (''t.d.ts'', File ''z''), (''sub'', Dir [(''c.ts'', File [CHR 0xFF])])])
   \<and> str (child (worker_dir ex_root) [''t.d.ts'']) = ''/proj/worker/src/t.d.ts''
   \<and> child (worker_dir ex_root) [''t.d.ts''] \<notin> set (find_files ex_world ex_root True)
   \<and> child (worker_dir ex_root) [''t.d.ts''] \<in> set (find_files ex_world ex_root False)"
proof -
  have l: "lookup ex_world (worker_dir ex_root) = Some (Dir [(''b.ts'', File ''x = 1''),
       (''A.tsx'', File ''y''), (''t.d.ts'', File ''z''), (''sub'', Dir [(''c.ts'', File [CHR 0xFF])])])"
    by code_simp
  have d: "descend (Dir [(''b.ts'', File ''x = 1''),
       (''A.tsx'', File ''y''), (''t.d.ts'', File ''z''), (''sub'', Dir [(''c.ts'', File [CHR 0xFF])])])
       [''t.d.ts''] = Some (File ''z'')"
    by code_simp
  have e: "endswith (name (child (worker_dir ex_root) [''t.d.ts''])) ''.d.ts''"
    by code_simp
  have s: "str (child (worker_dir ex_root) [''t.d.ts'']) = ''/proj/worker/src/t.d.ts''"
    by code_simp
  note t = declaration_files_and_the_flag[OF l d e]
  from l s t[THEN conjunct1] t[THEN conjunct2] show ?thesis by (intro conjI)
qed

section \<open>Files that do not decode\<close>



section \<open>The body of a fenced block\<close>




section \<open>The display path\<close>

text \<open>
  C2. The guard of line 69 is \<open>path.exists()\<close>, which holds for every file that has just
  been read, so \<open>relative_to\<close> is called for every file and raises ValueError for a path
  that is not below the working directory. Two runs on the project of the example: from
  another working directory with the absolute root \<open>/proj\<close>, and from \<open>/proj\<close> with the
  relative root \<open>.\<close>. In both the first file exists and is read, computing its display
  path raises, and the run ends with that exception after the header alone has reached
  the output file.
\<close>

theorem display_path_raises_outside_cwd:
  "map str (find_files ex_elsewhere ex_root True)
     = [''/proj/worker/src/A.tsx'', ''/proj/worker/src/b.ts'', ''/proj/worker/src/sub/c.ts'',
        ''/proj/wrangler.toml'']
   \<and> read_text ex_elsewhere (child ex_src [''A.tsx'']) = Inr ''y''
   \<and> display_path ex_elsewhere (child ex_src [''A.tsx'']) = Inl ValueError
   \<and> snd (main ex_elsewhere ex_args) = Inl ValueError
   \<and> lookup (fst (main ex_elsewhere ex_args)) ex_out
     = Some (File ''# Combined source files\<newline>\<newline>Generated: 2024-01-01T00:00:00Z\<newline>\<newline>'')
   \<and> map str (find_files ex_world (root ex_relative_args) True)
     = [''worker/src/A.tsx'', ''worker/src/b.ts'', ''worker/src/sub/c.ts'', ''wrangler.toml'']
   \<and> read_text ex_world \<lparr>absolute = False, parts = [''worker'', ''src'', ''A.tsx'']\<rparr> = Inr ''y''
   \<and> display_path ex_world \<lparr>absolute = False, parts = [''worker'', ''src'', ''A.tsx'']\<rparr>
     = Inl ValueError
   \<and> snd (main ex_world ex_relative_args) = Inl ValueError"
  by code_simp

end
